theory Spec2Isabelle
  imports Complex_Main
begin

section \<open>Python values\<close>

text \<open>
  The two notebooks (Llama 3 70B and Mixtral 8x7B on Inferentia2) are sequential Python
  cells over dictionaries, lists, strings and numbers. The values they handle are the
  ones \<^verbatim>\<open>json.load\<close> can return, so one datatype covers the endpoint
  configuration, the request body and the benchmark summary.

  A Python \<^verbatim>\<open>float\<close> is an IEEE binary64 number: \<open>Finite s m e\<close> is
  \<open>(-1)^s * m * 2^e\<close> (sign bit, significand, binary exponent), so that the two zeros
  are distinct, as they are when Python formats them. Strings are ASCII text, one
  \<open>char\<close> per character. A dictionary is an association list in insertion order with
  string keys, the only keys the notebooks and JSON objects use; the stores below keep
  the keys distinct, and a lookup reads the first entry of a key.
\<close>

datatype error =
    IndexError | KeyError | TypeError | ValueError | OverflowError
  | AttributeError | OSError | JSONDecodeError

datatype pyfloat = Finite bool nat int | Infinity bool | NaN

datatype pyval =
    VNone
  | VBool bool
  | VInt int
  | VFloat pyfloat
  | VStr string
  | VList "pyval list"
  | VDict "(string \<times> pyval) list"

type_synonym dict = "(string \<times> pyval) list"

definition and_then :: "error + 'a \<Rightarrow> ('a \<Rightarrow> error + 'b) \<Rightarrow> error + 'b" where
  "and_then r f = (case r of Inl e \<Rightarrow> Inl e | Inr x \<Rightarrow> f x)"

subsection \<open>Dictionaries\<close>

text \<open>
  \<^verbatim>\<open>d[k] = v\<close>: an existing key keeps its position and takes the new value, a new key
  goes to the end. A dictionary display \<^verbatim>\<open>{k1: v1, **other, k2: v2}\<close> stores its
  items from left to right in an empty dictionary.
\<close>

fun dict_set :: "dict \<Rightarrow> string \<Rightarrow> pyval \<Rightarrow> dict" where
  "dict_set [] k v = [(k, v)]"
| "dict_set ((k', v') # d) k v =
     (if k' = k then (k, v) # d else (k', v') # dict_set d k v)"

definition dict_update :: "dict \<Rightarrow> dict \<Rightarrow> dict" where
  "dict_update d other = foldl (\<lambda>acc (k, v). dict_set acc k v) d other"

definition dict_display :: "dict \<Rightarrow> dict" where
  "dict_display items = dict_update [] items"

definition keys :: "dict \<Rightarrow> string list" where
  "keys d = map fst d"

definition dict_values :: "dict \<Rightarrow> pyval list" where
  "dict_values d = map snd d"

text \<open>
  \<^verbatim>\<open>obj[k]\<close> with a string key \<open>k\<close>: a dictionary without the key raises KeyError;
  a list, a string, a number or None raises TypeError.
\<close>

fun subscript :: "pyval \<Rightarrow> string \<Rightarrow> error + pyval" where
  "subscript (VDict d) k = (case map_of d k of None \<Rightarrow> Inl KeyError | Some v \<Rightarrow> Inr v)"
| "subscript _ k = Inl TypeError"

subsection \<open>Binary64 arithmetic\<close>

text \<open>
  \<open>to_double s p q\<close> is the binary64 number nearest to \<open>(-1)^s * p / q\<close> (for
  \<open>q > 0\<close>), ties to the even significand: the conversion Python performs for a decimal
  literal, for \<^verbatim>\<open>float(int)\<close> and for the exact result of a float operation.
  \<open>scaled p q e\<close> is the fraction \<open>p / q / 2^e\<close>.
\<close>

fun bit_length :: "nat \<Rightarrow> nat" where
  "bit_length n = (if n = 0 then 0 else Suc (bit_length (n div 2)))"

declare bit_length.simps [simp del]

definition round_half_even :: "nat \<Rightarrow> nat \<Rightarrow> nat" where
  "round_half_even p q =
     (let d = p div q; r = p mod q
      in if 2 * r < q then d
         else if q < 2 * r then d + 1
         else if even d then d else d + 1)"

definition scaled :: "nat \<Rightarrow> nat \<Rightarrow> int \<Rightarrow> nat \<times> nat" where
  "scaled p q e = (if e < 0 then (p * 2 ^ nat (- e), q) else (p, q * 2 ^ nat e))"

definition to_double :: "bool \<Rightarrow> nat \<Rightarrow> nat \<Rightarrow> pyfloat" where
  "to_double s p q =
     (if p = 0 then Finite s 0 0
      else
        let k = int (bit_length p) - int (bit_length q);
            fl = (if snd (scaled p q k) \<le> fst (scaled p q k) then k else k - 1);
            e = max (fl - 52) (- 1074);
            m = round_half_even (fst (scaled p q e)) (snd (scaled p q e))
        in if 971 < e \<or> (e = 971 \<and> m = 2 ^ 53) then Infinity s else Finite s m e)"

text \<open>
  A decimal literal \<open>mant * 10^ex\<close> as Python and \<^verbatim>\<open>json.load\<close> read it.
\<close>

definition float_literal :: "nat \<Rightarrow> int \<Rightarrow> pyfloat" where
  "float_literal mant ex =
     (if ex < 0 then to_double False mant (10 ^ nat (- ex))
      else to_double False (mant * 10 ^ nat ex) 1)"

text \<open>\<^verbatim>\<open>float(n)\<close> for an int: OverflowError when \<open>n\<close> is too large.\<close>

definition float_of_int :: "int \<Rightarrow> error + pyfloat" where
  "float_of_int n =
     (case to_double (n < 0) (nat \<bar>n\<bar>) 1 of
        Infinity _ \<Rightarrow> Inl OverflowError
      | f \<Rightarrow> Inr f)"

fun float_mul :: "pyfloat \<Rightarrow> pyfloat \<Rightarrow> pyfloat" where
  "float_mul NaN _ = NaN"
| "float_mul _ NaN = NaN"
| "float_mul (Infinity s) (Infinity t) = Infinity (s \<noteq> t)"
| "float_mul (Infinity s) (Finite t n f) = (if n = 0 then NaN else Infinity (s \<noteq> t))"
| "float_mul (Finite s m e) (Infinity t) = (if m = 0 then NaN else Infinity (s \<noteq> t))"
| "float_mul (Finite s m e) (Finite t n f) =
     to_double (s \<noteq> t) (fst (scaled (m * n) 1 (- (e + f)))) (snd (scaled (m * n) 1 (- (e + f))))"

text \<open>The rational number a finite float stands for.\<close>

fun float_value :: "pyfloat \<Rightarrow> rat option" where
  "float_value (Finite s m e) =
     Some ((if s then - 1 else 1) * of_nat m *
           (if e < 0 then 1 / 2 ^ nat (- e) else 2 ^ nat e))"
| "float_value _ = None"

section \<open>Endpoint configuration\<close>

text \<open>
  The configuration cell of each notebook builds \<^verbatim>\<open>config\<close> as a dictionary display
  and hands it to \<^verbatim>\<open>HuggingFaceModel(role=role, image_uri=llm_image, env=config)\<close>.
  \<^verbatim>\<open>HfFolder.get_token()\<close> returns the stored token or None; its result is the
  parameter \<open>token\<close>.
\<close>

definition get_token :: "string option \<Rightarrow> pyval" where
  "get_token token = (case token of None \<Rightarrow> VNone | Some t \<Rightarrow> VStr t)"

definition llama_config :: "string option \<Rightarrow> dict" where
  "llama_config token = dict_display
     [(''HF_MODEL_ID'', VStr ''meta-llama/Meta-Llama-3-70B-Instruct''),
      (''HF_NUM_CORES'', VStr ''24''),
      (''HF_BATCH_SIZE'', VStr ''4''),
      (''HF_SEQUENCE_LENGTH'', VStr ''4096''),
      (''HF_AUTO_CAST_TYPE'', VStr ''fp16''),
      (''MAX_BATCH_SIZE'', VStr ''4''),
      (''MAX_INPUT_LENGTH'', VStr ''4000''),
      (''MAX_TOTAL_TOKENS'', VStr ''4096''),
      (''MESSAGES_API_ENABLED'', VStr ''true''),
      (''HF_TOKEN'', get_token token)]"

text \<open>The Mixtral notebook compiles the model first, with these shapes.\<close>

definition SEQUENCE_LENGTH :: nat where
  "SEQUENCE_LENGTH = 4096"

definition BATCH_SIZE :: nat where
  "BATCH_SIZE = 4"

definition NUM_CORES :: nat where
  "NUM_CORES = 24"

definition mixtral_config :: dict where
  "mixtral_config = dict_display
     [(''HF_MODEL_ID'', VStr ''aws-neuron/hermes-mixtral-instruct-seqlen-4096-bs-4-optimum-0-0-23''),
      (''HF_NUM_CORES'', VStr ''24''),
      (''HF_AUTO_CAST_TYPE'', VStr ''fp16''),
      (''MAX_BATCH_SIZE'', VStr ''4''),
      (''MAX_INPUT_LENGTH'', VStr ''4000''),
      (''MAX_TOTAL_TOKENS'', VStr ''4096''),
      (''MESSAGES_API_ENABLED'', VStr ''true'')]"

record hf_model =
  role :: string
  image_uri :: string
  env :: dict
  is_compiled_model :: bool

definition HuggingFaceModel :: "string \<Rightarrow> string \<Rightarrow> dict \<Rightarrow> hf_model" where
  "HuggingFaceModel r img config =
     \<lparr>role = r, image_uri = img, env = config, is_compiled_model = False\<rparr>"

text \<open>
  The deploy cell sets \<^verbatim>\<open>_is_compiled_model\<close> and calls \<^verbatim>\<open>deploy\<close> with these
  arguments; what the hosting platform does with them is outside the notebooks.
\<close>

record deploy_call =
  model :: hf_model
  initial_instance_count :: nat
  instance_type :: string
  container_startup_health_check_timeout :: nat
  volume_size :: nat

definition deploy_cell :: "hf_model \<Rightarrow> deploy_call" where
  "deploy_cell llm_model =
     \<lparr>model = llm_model\<lparr>is_compiled_model := True\<rparr>,
      initial_instance_count = 1,
      instance_type = ''ml.inf2.48xlarge'',
      container_startup_health_check_timeout = 2400,
      volume_size = 512\<rparr>"

subsection \<open>Reading the configured numbers\<close>

text \<open>
  The configuration holds its numbers as decimal strings. \<open>env_nat\<close> reads one back:
  None when the key is absent, the value is not a string, or the string is not a
  sequence of decimal digits.
\<close>

definition digit_of :: "char \<Rightarrow> nat option" where
  "digit_of c =
     (let n = (of_char c :: nat) in if 48 \<le> n \<and> n \<le> 57 then Some (n - 48) else None)"

fun digits_from :: "nat \<Rightarrow> string \<Rightarrow> nat option" where
  "digits_from acc [] = Some acc"
| "digits_from acc (c # cs) =
     (case digit_of c of None \<Rightarrow> None | Some d \<Rightarrow> digits_from (10 * acc + d) cs)"

definition decimal :: "string \<Rightarrow> nat option" where
  "decimal s = (if s = [] then None else digits_from 0 s)"

definition env_nat :: "dict \<Rightarrow> string \<Rightarrow> nat option" where
  "env_nat config k =
     (case map_of config k of Some (VStr s) \<Rightarrow> decimal s | _ \<Rightarrow> None)"

text \<open>
  The consistency constraints of a configuration against the shapes the model was
  compiled with: the total token limit is the compiled sequence length, the input limit
  is strictly below the total, and the serving batch size is the compiled batch size.
\<close>

definition config_consistent :: "nat option \<Rightarrow> nat option \<Rightarrow> dict \<Rightarrow> bool" where
  "config_consistent seq_len batch config =
     (case (env_nat config ''MAX_TOTAL_TOKENS'', env_nat config ''MAX_INPUT_LENGTH'',
            env_nat config ''MAX_BATCH_SIZE'') of
        (Some tot, Some inp, Some mb) \<Rightarrow>
          seq_len = Some tot \<and> inp < tot \<and> batch = Some mb
      | _ \<Rightarrow> False)"

definition is_str :: "pyval \<Rightarrow> bool" where
  "is_str v = (case v of VStr _ \<Rightarrow> True | _ \<Rightarrow> False)"

section \<open>Inference request\<close>

text \<open>
  The prompt cell defines \<^verbatim>\<open>messages\<close> and \<^verbatim>\<open>parameters\<close>; the next cell sends
  \<^verbatim>\<open>{"messages": messages, **parameters, "steam": True}\<close> (Llama) or
  \<^verbatim>\<open>{"messages": messages, **parameters}\<close> (Mixtral) to \<^verbatim>\<open>llm.predict\<close>.
\<close>

definition message :: "string \<Rightarrow> string \<Rightarrow> pyval" where
  "message r c = VDict (dict_display [(''role'', VStr r), (''content'', VStr c)])"

definition messages :: "pyval list" where
  "messages =
     [message ''system'' ''You are a helpful assistant.'',
      message ''user'' ''What is deep learning?'']"

definition llama_parameters :: dict where
  "llama_parameters = dict_display
     [(''model'', VStr ''meta-llama/Meta-Llama-3-70B-Instruct''),
      (''top_p'', VFloat (float_literal 6 (- 1))),
      (''temperature'', VFloat (float_literal 9 (- 1))),
      (''max_tokens'', VInt 50),
      (''stop'', VList [VStr ''<|eot_id|>''])]"

definition mixtral_parameters :: dict where
  "mixtral_parameters = dict_display
     [(''model'', VStr ''aws-neuron/mixtral-instruct-seqlen-4096-bs-4-optimum-0-0-23''),
      (''top_p'', VFloat (float_literal 6 (- 1))),
      (''temperature'', VFloat (float_literal 9 (- 1))),
      (''max_tokens'', VInt 512)]"

definition llama_request :: "pyval list \<Rightarrow> dict" where
  "llama_request msgs =
     dict_set (dict_update (dict_set [] ''messages'' (VList msgs)) llama_parameters)
       ''steam'' (VBool True)"

definition mixtral_request :: "pyval list \<Rightarrow> dict" where
  "mixtral_request msgs =
     dict_update (dict_set [] ''messages'' (VList msgs)) mixtral_parameters"

subsection \<open>Reading the reply\<close>

text \<open>
  The same cell decodes what \<^verbatim>\<open>llm.predict\<close> returns:
  \<^verbatim>\<open>chat["choices"][0]["message"]["content"].strip()\<close>. The response \<open>chat\<close> is
  whatever value the endpoint's JSON answer parses to. \<^verbatim>\<open>obj[0]\<close> is the first item
  of a list or the first character of a string (IndexError when empty), KeyError on a
  dictionary (its keys are strings) and TypeError on None and on numbers;
  \<^verbatim>\<open>.strip()\<close> exists on strings only and removes leading and trailing whitespace.
\<close>

definition is_space :: "char \<Rightarrow> bool" where
  "is_space c = ((of_char c :: nat) \<in> {9, 10, 11, 12, 13, 28, 29, 30, 31, 32})"

definition strip :: "string \<Rightarrow> string" where
  "strip s = rev (dropWhile is_space (rev (dropWhile is_space s)))"




section \<open>Benchmark results\<close>

subsection \<open>Conversions the reader applies\<close>

text \<open>
  \<^verbatim>\<open>v * 1000\<close>: int arithmetic for an int or a bool, binary64 multiplication by
  \<open>1000.0\<close> for a float, repetition for a string or a list, TypeError for None and
  for a dictionary.
\<close>

fun mul_1000 :: "pyval \<Rightarrow> error + pyval" where
  "mul_1000 VNone = Inl TypeError"
| "mul_1000 (VBool b) = Inr (VInt ((if b then 1 else 0) * 1000))"
| "mul_1000 (VInt n) = Inr (VInt (n * 1000))"
| "mul_1000 (VFloat x) = Inr (VFloat (float_mul x (Finite False 1000 0)))"
| "mul_1000 (VStr s) = Inr (VStr (concat (replicate 1000 s)))"
| "mul_1000 (VList xs) = Inr (VList (concat (replicate 1000 xs)))"
| "mul_1000 (VDict d) = Inl TypeError"

text \<open>
  The format specification \<^verbatim>\<open>.2f\<close>: the exact value of the float, rounded to two
  decimals with ties to even, printed with its sign bit.
\<close>

definition digit_char :: "nat \<Rightarrow> char" where
  "digit_char d = ''0123456789'' ! d"

fun digits :: "nat \<Rightarrow> string" where
  "digits n = (if n < 10 then [digit_char n] else digits (n div 10) @ [digit_char (n mod 10)])"

declare digits.simps [simp del]

fun fixed2 :: "pyfloat \<Rightarrow> string" where
  "fixed2 NaN = ''nan''"
| "fixed2 (Infinity s) = (if s then ''-inf'' else ''inf'')"
| "fixed2 (Finite s m e) =
     (let c = round_half_even (fst (scaled (m * 100) 1 (- e))) (snd (scaled (m * 100) 1 (- e)))
      in (if s then ''-'' else []) @ digits (c div 100) @ ''.'' @
         [digit_char (c mod 100 div 10), digit_char (c mod 10)])"

fun format_2f :: "pyval \<Rightarrow> error + string" where
  "format_2f VNone = Inl TypeError"
| "format_2f (VBool b) = Inr (fixed2 (Finite False (if b then 1 else 0) 0))"
| "format_2f (VInt n) = and_then (float_of_int n) (\<lambda>x. Inr (fixed2 x))"
| "format_2f (VFloat x) = Inr (fixed2 x)"
| "format_2f (VStr s) = Inl ValueError"
| "format_2f (VList xs) = Inl TypeError"
| "format_2f (VDict d) = Inl TypeError"

text \<open>
  \<^verbatim>\<open>int(v)\<close>: a float is truncated toward zero (OverflowError for an infinity,
  ValueError for a NaN); a string is read as an optionally signed decimal numeral with
  surrounding whitespace and single underscores between digits allowed.
\<close>

fun grouped_digits :: "nat \<Rightarrow> string \<Rightarrow> nat option" where
  "grouped_digits acc [] = Some acc"
| "grouped_digits acc [c] =
     (case digit_of c of None \<Rightarrow> None | Some d \<Rightarrow> Some (10 * acc + d))"
| "grouped_digits acc (c # c' # cs) =
     (if c = CHR ''_''
      then (case digit_of c' of None \<Rightarrow> None
            | Some d \<Rightarrow> grouped_digits (10 * acc + d) cs)
      else (case digit_of c of None \<Rightarrow> None
            | Some d \<Rightarrow> grouped_digits (10 * acc + d) (c' # cs)))"

definition numeral_of :: "string \<Rightarrow> nat option" where
  "numeral_of s =
     (case s of [] \<Rightarrow> None
      | c # cs \<Rightarrow> (case digit_of c of None \<Rightarrow> None | Some d \<Rightarrow> grouped_digits d cs))"

definition int_of_str :: "string \<Rightarrow> error + int" where
  "int_of_str s =
     (case strip s of
        [] \<Rightarrow> Inl ValueError
      | c # cs \<Rightarrow>
          (if c = CHR ''-''
           then (case numeral_of cs of None \<Rightarrow> Inl ValueError | Some n \<Rightarrow> Inr (- int n))
           else if c = CHR ''+''
           then (case numeral_of cs of None \<Rightarrow> Inl ValueError | Some n \<Rightarrow> Inr (int n))
           else (case numeral_of (c # cs) of None \<Rightarrow> Inl ValueError | Some n \<Rightarrow> Inr (int n))))"

fun py_int :: "pyval \<Rightarrow> error + int" where
  "py_int VNone = Inl TypeError"
| "py_int (VBool b) = Inr (if b then 1 else 0)"
| "py_int (VInt n) = Inr n"
| "py_int (VFloat NaN) = Inl ValueError"
| "py_int (VFloat (Infinity s)) = Inl OverflowError"
| "py_int (VFloat (Finite s m e)) =
     Inr ((if s then - 1 else 1) *
          (if e < 0 then int (m div 2 ^ nat (- e)) else int (m * 2 ^ nat e)))"
| "py_int (VStr s) = int_of_str s"
| "py_int (VList xs) = Inl TypeError"
| "py_int (VDict d) = Inl TypeError"

text \<open>Truncation of a rational number toward zero, to state what \<^verbatim>\<open>int\<close> returns.\<close>

definition toward_zero :: "rat \<Rightarrow> int" where
  "toward_zero a = (if a < 0 then \<lceil>a\<rceil> else \<lfloor>a\<rfloor>)"

subsection \<open>Locating and loading the summary\<close>

text \<open>
  \<^verbatim>\<open>glob.glob('results/*summary.json')\<close> over the names in the directory
  \<^verbatim>\<open>results\<close>, in the order the operating system lists them (\<open>listing\<close>; empty
  when the directory is missing): a name matches when it ends in \<^verbatim>\<open>summary.json\<close>
  and does not start with a dot. \<open>load path\<close> stands for opening the file and
  \<^verbatim>\<open>json.load\<close>: the parsed value, or the error raised.
\<close>

definition endswith :: "string \<Rightarrow> string \<Rightarrow> bool" where
  "endswith s suffix =
     (length suffix \<le> length s \<and> drop (length s - length suffix) s = suffix)"

definition summary_match :: "string \<Rightarrow> bool" where
  "summary_match name = (endswith name ''summary.json'' \<and> take 1 name \<noteq> ''.'')"

definition glob_summary :: "string list \<Rightarrow> string list" where
  "glob_summary listing = map (\<lambda>name. ''results/'' @ name) (filter summary_match listing)"

definition read_summary :: "string list \<Rightarrow> (string \<Rightarrow> error + pyval) \<Rightarrow> error + pyval" where
  "read_summary listing load =
     (case glob_summary listing of [] \<Rightarrow> Inl IndexError | path # _ \<Rightarrow> load path)"

subsection \<open>Printing the report\<close>

text \<open>
  A printed line is a list of fragments: literal text, and \<open>Str v\<close> for the text Python
  gives a value interpolated without a format specification. The print statements run in
  order; the first one whose expression raises ends the cell, after the lines before it
  have been printed.
\<close>

datatype frag = Lit string | Str pyval

type_synonym line = "frag list"

fun run_prints :: "(error + line) list \<Rightarrow> line list \<times> error option" where
  "run_prints [] = ([], None)"
| "run_prints (Inl e # rest) = ([], Some e)"
| "run_prints (Inr l # rest) = (l # fst (run_prints rest), snd (run_prints rest))"

definition llama_prints :: "pyval \<Rightarrow> (error + line) list" where
  "llama_prints data =
     [Inr [Lit ''Concurrent requests: 5''],
      and_then (subscript data ''mean_input_tokens'')
        (\<lambda>v. Inr [Lit ''Avg. Input token length: '', Str v]),
      and_then (subscript data ''mean_output_tokens'')
        (\<lambda>v. Inr [Lit ''Avg. Output token length: '', Str v]),
      and_then (and_then (and_then (subscript data ''results_ttft_s_mean'') mul_1000) format_2f)
        (\<lambda>t. Inr [Lit (''Avg. First-Time-To-Token: '' @ t @ ''ms'')]),
      and_then (and_then (subscript data ''results_mean_output_throughput_token_per_s'') format_2f)
        (\<lambda>t. Inr [Lit (''Avg. Thorughput: '' @ t @ '' tokens/sec'')]),
      and_then (and_then (and_then (subscript data ''results_inter_token_latency_s_mean'') mul_1000) format_2f)
        (\<lambda>t. Inr [Lit (''Avg. Latency: '' @ t @ ''ms/token'')])]"

definition mixtral_prints :: "pyval \<Rightarrow> (error + line) list" where
  "mixtral_prints data =
     [Inr [Lit ''Concurrent requests: 5''],
      and_then (and_then (subscript data ''results_number_input_tokens_mean'') py_int)
        (\<lambda>n. Inr [Lit ''Avg. Input token length: '', Str (VInt n)]),
      and_then (and_then (subscript data ''results_number_output_tokens_mean'') py_int)
        (\<lambda>n. Inr [Lit ''Avg. Output token length: '', Str (VInt n)]),
      and_then (and_then (and_then (subscript data ''results_ttft_s_mean'') mul_1000) format_2f)
        (\<lambda>t. Inr [Lit (''Avg. Time-to-first-Token: '' @ t @ ''ms'')]),
      and_then (and_then (and_then (subscript data ''results_inter_token_latency_s_mean'') mul_1000) format_2f)
        (\<lambda>t. Inr [Lit (''Avg. Inter-Token-Latency: '' @ t @ ''ms/token'')]),
      and_then (and_then (subscript data ''results_mean_output_throughput_token_per_s'') format_2f)
        (\<lambda>t. Inr [Lit (''Avg. Thorughput: '' @ t @ '' tokens/sec'')]),
      and_then (and_then (subscript data ''results_num_completed_requests_per_min'') format_2f)
        (\<lambda>t. Inr [Lit (''Request per minute (RPM): '' @ t @ '' req/min'')])]"

definition llama_benchmark_cell ::
    "string list \<Rightarrow> (string \<Rightarrow> error + pyval) \<Rightarrow> line list \<times> error option" where
  "llama_benchmark_cell listing load =
     (case read_summary listing load of
        Inl e \<Rightarrow> ([], Some e)
      | Inr data \<Rightarrow> run_prints (llama_prints data))"

definition mixtral_benchmark_cell ::
    "string list \<Rightarrow> (string \<Rightarrow> error + pyval) \<Rightarrow> line list \<times> error option" where
  "mixtral_benchmark_cell listing load =
     (case read_summary listing load of
        Inl e \<Rightarrow> ([], Some e)
      | Inr data \<Rightarrow> run_prints (mixtral_prints data))"

section \<open>Evaluation and helper lemmas\<close>

text \<open>
  Rules that let the simplifier run the binary64 model on numerals, two facts about
  dictionary stores, the truncation \<^verbatim>\<open>int\<close> performs on a finite float and its
  errors on the other floats, the file the reader loads, and the reply decoder on a
  well-formed response.
\<close>

lemma bit_length_0 [simp]: "bit_length 0 = 0"
  by (simp add: bit_length.simps)

lemma bit_length_1 [simp]: "bit_length 1 = 1" "bit_length (Suc 0) = 1"
  by (simp_all add: bit_length.simps)

lemma bit_length_Bit0 [simp]:
  "bit_length (numeral (Num.Bit0 n)) = Suc (bit_length (numeral n))"
  by (subst bit_length.simps) simp

lemma bit_length_Bit1 [simp]:
  "bit_length (numeral (Num.Bit1 n)) = Suc (bit_length (numeral n))"
  by (subst bit_length.simps) simp

lemmas float_eval = float_literal_def to_double_def scaled_def round_half_even_def Let_def
  digits.simps digit_char_def

lemma map_of_dict_set:
  "map_of (dict_set d k v) k' = (if k' = k then Some v else map_of d k')"
  by (induction d k v rule: dict_set.induct) auto

lemma map_of_dict_update:
  "map_of (dict_update d other) k =
     (case map_of (rev other) k of Some v \<Rightarrow> Some v | None \<Rightarrow> map_of d k)"
  unfolding dict_update_def
proof (induction other arbitrary: d)
  case Nil
  show ?case by simp
next
  case (Cons p ps)
  obtain k' v' where p: "p = (k', v')" by (cases p)
  show ?case
    by (auto simp: p Cons.IH map_of_dict_set map_add_def split: option.splits)
qed

lemma py_int_trunc:
  assumes "float_value x = Some a"
  shows "py_int (VFloat x) = Inr (if a < 0 then \<lceil>a\<rceil> else \<lfloor>a\<rfloor>)"
proof (cases x)
  case (Finite s m e)
  show ?thesis
  proof (cases "e < 0")
    case True
    define k where "k = nat (- e)"
    have fl: "\<lfloor>(of_nat m :: rat) / 2 ^ k\<rfloor> = int (m div 2 ^ k)"
      using floor_divide_of_nat_eq [of m "2 ^ k", where ?'a = rat] by simp
    have nn: "0 \<le> (of_nat m :: rat) / 2 ^ k" by simp
    show ?thesis
    proof (cases s)
      case True
      have a: "a = - ((of_nat m :: rat) / 2 ^ k)"
        using assms Finite \<open>e < 0\<close> True by (simp add: k_def)
      show ?thesis
      proof (cases "a < 0")
        case True
        then show ?thesis
          using Finite \<open>e < 0\<close> \<open>s\<close> a fl by (simp add: k_def ceiling_minus)
      next
        case False
        then have "(of_nat m :: rat) / 2 ^ k = 0" using a nn by linarith
        then have "a = 0" "int (m div 2 ^ k) = 0" using a fl by simp_all
        then show ?thesis
          using Finite \<open>e < 0\<close> \<open>s\<close> by (simp add: k_def)
      qed
    next
      case False
      have a: "a = (of_nat m :: rat) / 2 ^ k"
        using assms Finite \<open>e < 0\<close> False by (simp add: k_def)
      have "\<not> a < 0" using a nn by linarith
      then show ?thesis
        using Finite \<open>e < 0\<close> False a fl by (simp add: k_def)
    qed
  next
    case False
    define z where "z = (if s then - 1 else 1) * int (m * 2 ^ nat e)"
    have "a = (if s then - 1 else 1) * of_nat m * 2 ^ nat e"
      using assms Finite False by simp
    also have "\<dots> = of_int z"
      by (simp add: z_def)
    finally have a: "a = of_int z" .
    have "(if a < 0 then \<lceil>a\<rceil> else \<lfloor>a\<rfloor>) = z"
      unfolding a by simp
    moreover have "py_int (VFloat x) = Inr z"
      using Finite False by (simp add: z_def)
    ultimately show ?thesis by simp
  qed
next
  case (Infinity s)
  then show ?thesis using assms by simp
next
  case NaN
  then show ?thesis using assms by simp
qed


lemma read_summary_found:
  "find summary_match listing = Some name \<Longrightarrow>
     read_summary listing load = load (''results/'' @ name)"
  by (induction listing) (auto simp: read_summary_def glob_summary_def split: if_splits)

lemma py_int_nonfinite:
  "float_value x = None \<Longrightarrow>
     py_int (VFloat x) = Inl (if x = NaN then ValueError else OverflowError)"
  by (cases x) simp_all

lemma not_int_trunc: "a \<notin> \<int> \<Longrightarrow> of_int (toward_zero a) \<noteq> a"
  by (metis Ints_of_int)



lemma ttft_ms: "float_mul (float_literal 550533 (- 5)) (Finite False 1000 0) =
    Finite False 6053174349744046 (- 40)"
  by (simp add: float_eval)

lemma latency_ms: "float_mul (float_literal 2346 (- 5)) (Finite False 1000 0) =
    Finite False 6603402953631990 (- 48)"
  by (simp add: float_eval)

lemma ttft_text: "fixed2 (Finite False 6053174349744046 (- 40)) = ''5505.33''"
  by (simp add: float_eval)

lemma latency_text: "fixed2 (Finite False 6603402953631990 (- 48)) = ''23.46''"
  by (simp add: float_eval)

lemma throughput_text: "fixed2 (float_literal 1328 (- 1)) = ''132.80''"
  by (simp add: float_eval)

lemma deploy_arguments:
  "container_startup_health_check_timeout (deploy_cell m) = 2400 \<and>
   instance_type (deploy_cell m) = ''ml.inf2.48xlarge'' \<and>
   volume_size (deploy_cell m) = 512 \<and>
   env (model (deploy_cell m)) = env m"
  by (simp add: deploy_cell_def)

section \<open>The claims\<close>

subsection \<open>Locating the summary file\<close>

text \<open>
  C1, as the code has it. The reader opens the first path the glob returns and parses
  it: the first name of the directory listing that ends in \<^verbatim>\<open>summary.json\<close> and is
  not hidden. With exactly one matching file that is the file. With no matching file the
  subscript \<^verbatim>\<open>[0]\<close> raises IndexError. With several matching files the first is
  read and the others are ignored. An error of opening or parsing the file is passed on
  as it is.
\<close>

theorem read_summary_first_match:
  "read_summary listing load =
     (case find summary_match listing of
        None \<Rightarrow> Inl IndexError
      | Some name \<Rightarrow> load (''results/'' @ name))"
  by (induction listing) (simp_all add: read_summary_def glob_summary_def)

text \<open>
  C1 as stated fails: with two matching files the reader does not fail, it returns the
  content of the first one; and with no file the error is Python's IndexError.
\<close>

theorem read_summary_two_matches:
  "glob_summary [''a_summary.json'', ''b_summary.json''] =
     [''results/a_summary.json'', ''results/b_summary.json''] \<and>
   read_summary [''a_summary.json'', ''b_summary.json''] (\<lambda>path. Inr (VStr path)) =
     Inr (VStr ''results/a_summary.json'') \<and>
   read_summary [] (\<lambda>path. Inr (VStr path)) = Inl IndexError"
  by (simp add: read_summary_def glob_summary_def summary_match_def endswith_def)

subsection \<open>Consistency of the configuration\<close>

text \<open>
  C2, as the code has it. Both configurations the notebooks write are consistent: in
  the Llama notebook \<^verbatim>\<open>MAX_TOTAL_TOKENS\<close> is \<^verbatim>\<open>HF_SEQUENCE_LENGTH\<close>,
  \<^verbatim>\<open>MAX_INPUT_LENGTH\<close> is below it and \<^verbatim>\<open>MAX_BATCH_SIZE\<close> is
  \<^verbatim>\<open>HF_BATCH_SIZE\<close>, whatever the token; in the Mixtral notebook the same holds
  against the sequence length and batch size of the compile cell. Nothing checks a
  configuration: the model is built with whatever dictionary it is given, unchanged.
\<close>

theorem configs_consistent_unchecked:
  "config_consistent (env_nat (llama_config token) ''HF_SEQUENCE_LENGTH'')
     (env_nat (llama_config token) ''HF_BATCH_SIZE'') (llama_config token) \<and>
   config_consistent (Some SEQUENCE_LENGTH) (Some BATCH_SIZE) mixtral_config \<and>
   env (HuggingFaceModel r img config) = config"
  by (simp add: config_consistent_def env_nat_def llama_config_def mixtral_config_def
      dict_display_def dict_update_def decimal_def digit_of_def SEQUENCE_LENGTH_def
      BATCH_SIZE_def HuggingFaceModel_def)

text \<open>
  C2 as stated fails in its last part: a configuration whose input limit (5000) exceeds
  its total token limit (4096) is not rejected; the model is built with it.
\<close>

theorem inconsistent_config_accepted:
  "\<not> config_consistent (Some 4096) (Some 4)
       (dict_set (llama_config (Some ''hf_token'')) ''MAX_INPUT_LENGTH'' (VStr ''5000'')) \<and>
   env (HuggingFaceModel ''role'' ''image''
         (dict_set (llama_config (Some ''hf_token'')) ''MAX_INPUT_LENGTH'' (VStr ''5000''))) =
     dict_set (llama_config (Some ''hf_token'')) ''MAX_INPUT_LENGTH'' (VStr ''5000'')"
  by (simp add: config_consistent_def env_nat_def llama_config_def
      dict_display_def dict_update_def decimal_def digit_of_def HuggingFaceModel_def get_token_def)

subsection \<open>The request body\<close>

text \<open>
  C4. The keys of the request body, for every message list. The Mixtral body has exactly
  \<^verbatim>\<open>messages\<close>, \<^verbatim>\<open>model\<close>, \<^verbatim>\<open>top_p\<close>, \<^verbatim>\<open>temperature\<close> and
  \<^verbatim>\<open>max_tokens\<close>. The Llama body has these and \<^verbatim>\<open>stop\<close>, and one key more,
  \<^verbatim>\<open>steam\<close>, which is not a field of the chat completion schema.
\<close>

theorem request_keys:
  "keys (llama_request msgs) =
     [''messages'', ''model'', ''top_p'', ''temperature'', ''max_tokens'', ''stop'', ''steam''] \<and>
   keys (mixtral_request msgs) =
     [''messages'', ''model'', ''top_p'', ''temperature'', ''max_tokens'']"
  by (simp add: keys_def llama_request_def mixtral_request_def llama_parameters_def
      mixtral_parameters_def dict_update_def dict_display_def)




subsection \<open>The environment map\<close>

text \<open>
  C8, as the code has it. Every key of either configuration is a string (the type of a
  dictionary here). Every value of the Mixtral configuration is a string, and so is
  every value of the Llama configuration when a token is stored, that is when
  \<^verbatim>\<open>HfFolder.get_token()\<close> returns a string, as the login step of the notebook
  provides.
\<close>

theorem config_values_strings:
  "list_all is_str (dict_values (llama_config (Some t))) \<and>
   list_all is_str (dict_values mixtral_config)"
  by (simp add: dict_values_def llama_config_def mixtral_config_def dict_display_def
      dict_update_def get_token_def is_str_def)

text \<open>
  C8 as stated fails when no token is stored: \<^verbatim>\<open>HF_TOKEN\<close> is then None, which is
  not a string.
\<close>

theorem config_token_none:
  "map_of (llama_config None) ''HF_TOKEN'' = Some VNone \<and>
   \<not> list_all is_str (dict_values (llama_config None))"
  by (simp add: dict_values_def llama_config_def dict_display_def
      dict_update_def get_token_def is_str_def)

subsection \<open>The printed report\<close>

text \<open>
  C3. Let the results directory hold exactly one file matching the pattern, and let the
  parsed file give 550 and 150 for the token means, 5.50533 for the time to first token,
  132.8 for the throughput and 0.02346 for the inter-token latency. Then the Llama
  reader prints the report below without an error: 5505.33 ms to the first token and
  23.46 ms per token. The two floats it formats are the products by 1000 in binary64
  arithmetic, each within \<open>1 / 10 ^ 12\<close> of 5505.33 and 23.46.
\<close>

theorem llama_report_example:
  assumes "filter summary_match listing = [name]"
    and "load (''results/'' @ name) = Inr data"
    and "subscript data ''mean_input_tokens'' = Inr (VInt 550)"
    and "subscript data ''mean_output_tokens'' = Inr (VInt 150)"
    and "subscript data ''results_ttft_s_mean'' = Inr (VFloat (float_literal 550533 (- 5)))"
    and "subscript data ''results_mean_output_throughput_token_per_s'' =
           Inr (VFloat (float_literal 1328 (- 1)))"
    and "subscript data ''results_inter_token_latency_s_mean'' =
           Inr (VFloat (float_literal 2346 (- 5)))"
  shows "llama_benchmark_cell listing load =
           ([[Lit ''Concurrent requests: 5''],
             [Lit ''Avg. Input token length: '', Str (VInt 550)],
             [Lit ''Avg. Output token length: '', Str (VInt 150)],
             [Lit ''Avg. First-Time-To-Token: 5505.33ms''],
             [Lit ''Avg. Thorughput: 132.80 tokens/sec''],
             [Lit ''Avg. Latency: 23.46ms/token'']], None) \<and>
         (\<exists>a b. float_value (float_mul (float_literal 550533 (- 5)) (Finite False 1000 0)) = Some a \<and>
                \<bar>a - 550533 / 100\<bar> < 1 / 10 ^ 12 \<and>
                float_value (float_mul (float_literal 2346 (- 5)) (Finite False 1000 0)) = Some b \<and>
                \<bar>b - 2346 / 100\<bar> < 1 / 10 ^ 12)"
proof -
  have "read_summary listing load = Inr data"
    using assms(1,2) by (simp add: read_summary_def glob_summary_def)
  then have "llama_benchmark_cell listing load = run_prints (llama_prints data)"
    by (simp add: llama_benchmark_cell_def)
  also have "\<dots> =
           ([[Lit ''Concurrent requests: 5''],
             [Lit ''Avg. Input token length: '', Str (VInt 550)],
             [Lit ''Avg. Output token length: '', Str (VInt 150)],
             [Lit ''Avg. First-Time-To-Token: 5505.33ms''],
             [Lit ''Avg. Thorughput: 132.80 tokens/sec''],
             [Lit ''Avg. Latency: 23.46ms/token'']], None)"
    by (simp add: llama_prints_def and_then_def assms(3-7) ttft_ms latency_ms ttft_text
        latency_text throughput_text del: fixed2.simps)
  finally have lines: "llama_benchmark_cell listing load =
           ([[Lit ''Concurrent requests: 5''],
             [Lit ''Avg. Input token length: '', Str (VInt 550)],
             [Lit ''Avg. Output token length: '', Str (VInt 150)],
             [Lit ''Avg. First-Time-To-Token: 5505.33ms''],
             [Lit ''Avg. Thorughput: 132.80 tokens/sec''],
             [Lit ''Avg. Latency: 23.46ms/token'']], None)" .
  have v1: "float_value (float_mul (float_literal 550533 (- 5)) (Finite False 1000 0)) =
      Some (6053174349744046 / 2 ^ 40)"
    by (simp add: ttft_ms)
  have b1: "\<bar>(6053174349744046 :: rat) / 2 ^ 40 - 550533 / 100\<bar> < 1 / 10 ^ 12"
    by simp
  have v2: "float_value (float_mul (float_literal 2346 (- 5)) (Finite False 1000 0)) =
      Some (6603402953631990 / 2 ^ 48)"
    by (simp add: latency_ms)
  have b2: "\<bar>(6603402953631990 :: rat) / 2 ^ 48 - 2346 / 100\<bar> < 1 / 10 ^ 12"
    by simp
  from lines v1 b1 v2 b2 show ?thesis
    by blast
qed

text \<open>
  The hypotheses of C3 at a directory with a second, non-matching file.
\<close>

theorem llama_report_example_witness:
  "llama_benchmark_cell [''README.md'', ''llama3_550_150_summary.json'']
     (\<lambda>path. Inr (VDict
        [(''mean_input_tokens'', VInt 550),
         (''mean_output_tokens'', VInt 150),
         (''results_ttft_s_mean'', VFloat (float_literal 550533 (- 5))),
         (''results_mean_output_throughput_token_per_s'', VFloat (float_literal 1328 (- 1))),
         (''results_inter_token_latency_s_mean'', VFloat (float_literal 2346 (- 5)))])) =
     ([[Lit ''Concurrent requests: 5''],
       [Lit ''Avg. Input token length: '', Str (VInt 550)],
       [Lit ''Avg. Output token length: '', Str (VInt 150)],
       [Lit ''Avg. First-Time-To-Token: 5505.33ms''],
       [Lit ''Avg. Thorughput: 132.80 tokens/sec''],
       [Lit ''Avg. Latency: 23.46ms/token'']], None)"
  using llama_report_example [of "[''README.md'', ''llama3_550_150_summary.json'']"
      "''llama3_550_150_summary.json''"
      "\<lambda>path. Inr (VDict
        [(''mean_input_tokens'', VInt 550),
         (''mean_output_tokens'', VInt 150),
         (''results_ttft_s_mean'', VFloat (float_literal 550533 (- 5))),
         (''results_mean_output_throughput_token_per_s'', VFloat (float_literal 1328 (- 1))),
         (''results_inter_token_latency_s_mean'', VFloat (float_literal 2346 (- 5)))])"
      "VDict
        [(''mean_input_tokens'', VInt 550),
         (''mean_output_tokens'', VInt 150),
         (''results_ttft_s_mean'', VFloat (float_literal 550533 (- 5))),
         (''results_mean_output_throughput_token_per_s'', VFloat (float_literal 1328 (- 1))),
         (''results_inter_token_latency_s_mean'', VFloat (float_literal 2346 (- 5)))]"]
  by (simp add: summary_match_def endswith_def)

text \<open>
  C10. Let the Mixtral reader find a summary file and parse it, and let the two token
  means in it be floats. Then, for every such file, the cell prints the heading and, for
  each token mean, its truncation toward zero as an integer: when the mean is not an
  integer, the printed count differs from the value in the file. A mean that is an
  infinity or a NaN has no value to report: \<^verbatim>\<open>int\<close> raises OverflowError or
  ValueError and the cell stops after the lines printed so far. The four other fields
  are not converted: when they are floats, they are printed as floats with two decimals,
  the two times after the multiplication by 1000, and the cell ends without an error.
\<close>

theorem mixtral_token_means_truncated:
  assumes "find summary_match listing = Some name"
    and "load (''results/'' @ name) = Inr data"
    and "subscript data ''results_number_input_tokens_mean'' = Inr (VFloat x)"
    and "subscript data ''results_number_output_tokens_mean'' = Inr (VFloat y)"
  shows
    "(case float_value x of
        None \<Rightarrow>
          mixtral_benchmark_cell listing load =
            ([[Lit ''Concurrent requests: 5'']],
             Some (if x = NaN then ValueError else OverflowError))
      | Some a \<Rightarrow>
          (a \<notin> \<int> \<longrightarrow> of_int (toward_zero a) \<noteq> a) \<and>
          (case float_value y of
             None \<Rightarrow>
               mixtral_benchmark_cell listing load =
                 ([[Lit ''Concurrent requests: 5''],
                   [Lit ''Avg. Input token length: '', Str (VInt (toward_zero a))]],
                  Some (if y = NaN then ValueError else OverflowError))
           | Some b \<Rightarrow>
               (b \<notin> \<int> \<longrightarrow> of_int (toward_zero b) \<noteq> b) \<and>
               take 3 (fst (mixtral_benchmark_cell listing load)) =
                 [[Lit ''Concurrent requests: 5''],
                  [Lit ''Avg. Input token length: '', Str (VInt (toward_zero a))],
                  [Lit ''Avg. Output token length: '', Str (VInt (toward_zero b))]] \<and>
               (\<forall>t l p q.
                  subscript data ''results_ttft_s_mean'' = Inr (VFloat t) \<and>
                  subscript data ''results_inter_token_latency_s_mean'' = Inr (VFloat l) \<and>
                  subscript data ''results_mean_output_throughput_token_per_s'' = Inr (VFloat p) \<and>
                  subscript data ''results_num_completed_requests_per_min'' = Inr (VFloat q) \<longrightarrow>
                  mixtral_benchmark_cell listing load =
                    ([[Lit ''Concurrent requests: 5''],
                      [Lit ''Avg. Input token length: '', Str (VInt (toward_zero a))],
                      [Lit ''Avg. Output token length: '', Str (VInt (toward_zero b))],
                      [Lit (''Avg. Time-to-first-Token: '' @
                            fixed2 (float_mul t (Finite False 1000 0)) @ ''ms'')],
                      [Lit (''Avg. Inter-Token-Latency: '' @
                            fixed2 (float_mul l (Finite False 1000 0)) @ ''ms/token'')],
                      [Lit (''Avg. Thorughput: '' @ fixed2 p @ '' tokens/sec'')],
                      [Lit (''Request per minute (RPM): '' @ fixed2 q @ '' req/min'')]],
                     None))))"
proof -
  have cell: "mixtral_benchmark_cell listing load = run_prints (mixtral_prints data)"
    using read_summary_found [OF assms(1), of load] assms(2)
    by (simp add: mixtral_benchmark_cell_def)
  show ?thesis
  proof (cases "float_value x")
    case None
    then show ?thesis
      by (simp add: cell mixtral_prints_def and_then_def assms py_int_nonfinite
          del: py_int.simps)
  next
    case a: (Some a)
    have ia: "py_int (VFloat x) = Inr (toward_zero a)"
      using py_int_trunc [OF a] by (simp add: toward_zero_def)
    show ?thesis
    proof (cases "float_value y")
      case None
      then show ?thesis
        using not_int_trunc [of a]
        by (simp add: a cell mixtral_prints_def and_then_def assms ia py_int_nonfinite
            del: py_int.simps)
    next
      case b: (Some b)
      have ib: "py_int (VFloat y) = Inr (toward_zero b)"
        using py_int_trunc [OF b] by (simp add: toward_zero_def)
      show ?thesis
        using not_int_trunc [of a] not_int_trunc [of b]
        by (simp add: a b cell mixtral_prints_def and_then_def assms ia ib
            del: py_int.simps fixed2.simps)
    qed
  qed
qed

text \<open>
  The hypotheses of C10 at a directory with a second, non-matching file and a summary
  with the means 562.5 and 676.25, printed as 562 and 676.
\<close>

theorem mixtral_token_means_truncated_witness:
  "mixtral_benchmark_cell [''mixtral_individual_responses.json'', ''mixtral_summary.json'']
     (\<lambda>path. Inr (VDict
      [(''results_number_input_tokens_mean'', VFloat (Finite False 1125 (- 1))),
       (''results_number_output_tokens_mean'', VFloat (Finite False 2705 (- 2))),
       (''results_ttft_s_mean'', VFloat (Finite False 5 (- 1))),
       (''results_inter_token_latency_s_mean'', VFloat (Finite False 1 (- 6))),
       (''results_mean_output_throughput_token_per_s'', VFloat (Finite False 288 0)),
       (''results_num_completed_requests_per_min'', VFloat (Finite False 51 (- 1)))])) =
     ([[Lit ''Concurrent requests: 5''],
       [Lit ''Avg. Input token length: '', Str (VInt 562)],
       [Lit ''Avg. Output token length: '', Str (VInt 676)],
       [Lit ''Avg. Time-to-first-Token: 2500.00ms''],
       [Lit ''Avg. Inter-Token-Latency: 15.62ms/token''],
       [Lit ''Avg. Thorughput: 288.00 tokens/sec''],
       [Lit ''Request per minute (RPM): 25.50 req/min'']], None) \<and>
   (562 :: rat) \<noteq> 1125 / 2 \<and> (676 :: rat) \<noteq> 2705 / 4"
proof -
  have f: "\<lfloor>1125 / 2 :: rat\<rfloor> = 562" "\<lfloor>2705 / 4 :: rat\<rfloor> = 676"
    by (simp_all add: floor_eq_iff)
  show ?thesis
    using mixtral_token_means_truncated [of
      "[''mixtral_individual_responses.json'', ''mixtral_summary.json'']"
      "''mixtral_summary.json''"
      "\<lambda>path. Inr (VDict
      [(''results_number_input_tokens_mean'', VFloat (Finite False 1125 (- 1))),
       (''results_number_output_tokens_mean'', VFloat (Finite False 2705 (- 2))),
       (''results_ttft_s_mean'', VFloat (Finite False 5 (- 1))),
       (''results_inter_token_latency_s_mean'', VFloat (Finite False 1 (- 6))),
       (''results_mean_output_throughput_token_per_s'', VFloat (Finite False 288 0)),
       (''results_num_completed_requests_per_min'', VFloat (Finite False 51 (- 1)))])"
      "VDict
      [(''results_number_input_tokens_mean'', VFloat (Finite False 1125 (- 1))),
       (''results_number_output_tokens_mean'', VFloat (Finite False 2705 (- 2))),
       (''results_ttft_s_mean'', VFloat (Finite False 5 (- 1))),
       (''results_inter_token_latency_s_mean'', VFloat (Finite False 1 (- 6))),
       (''results_mean_output_throughput_token_per_s'', VFloat (Finite False 288 0)),
       (''results_num_completed_requests_per_min'', VFloat (Finite False 51 (- 1)))]"
      "Finite False 1125 (- 1)" "Finite False 2705 (- 2)"]
    by (simp add: summary_match_def endswith_def toward_zero_def f float_eval)
qed

subsection \<open>Behaviour of the hosting platform\<close>

text \<open>
  What a second \<^verbatim>\<open>delete_endpoint\<close> does, whether \<^verbatim>\<open>predict\<close> fails on a deleted
  endpoint, and how long \<^verbatim>\<open>deploy\<close> waits are decided by the SageMaker SDK and the
  platform behind it. The notebooks call \<^verbatim>\<open>deploy\<close> once with the arguments of
  \<open>deploy_cell\<close>, then \<^verbatim>\<open>predict\<close>, then \<^verbatim>\<open>delete_model\<close> and
  \<^verbatim>\<open>delete_endpoint\<close> once each; no definition of this theory stands for the
  platform's side of these calls.
\<close>

end
